theory Spec2Isabelle
  imports Main "HOL-Library.AList"
begin

section \<open>JavaScript values and objects\<close>

text \<open>
  The attribute values that travel through the library are JavaScript values: strings,
  arrays of strings (multi-valued attributes), and whatever else an assertion or a
  configuration object may bind. Numbers are modelled as integers (no \<open>NaN\<close>). Two more
  values can be read from any plain object, because it inherits them from
  \<open>Object.prototype\<close>: a built-in function (\<open>JNative n\<close>, the function named \<open>n\<close>) and the
  prototype object itself (\<open>JObjectPrototype\<close>).
\<close>

datatype jsval =
    JUndefined
  | JNull
  | JBool bool
  | JNum int
  | JStr string
  | JArr "jsval list"
  | JObj "(string \<times> jsval) list"
  | JNative string
  | JObjectPrototype

text \<open>
  JavaScript truthiness, which is what \<open>!x\<close>, \<open>x && y\<close>, \<open>x || y\<close> and \<open>if (x)\<close> test:
  \<open>undefined\<close>, \<open>null\<close>, \<open>false\<close>, \<open>0\<close> and the empty string are falsy; every array,
  every object (also an empty one) and every function is truthy.
\<close>

fun truthy :: "jsval \<Rightarrow> bool" where
  "truthy JUndefined = False"
| "truthy JNull = False"
| "truthy (JBool b) = b"
| "truthy (JNum n) = (n \<noteq> 0)"
| "truthy (JStr s) = (s \<noteq> [])"
| "truthy (JArr xs) = True"
| "truthy (JObj kvs) = True"
| "truthy (JNative n) = True"
| "truthy JObjectPrototype = True"

subsection \<open>What a plain object inherits\<close>

text \<open>
  The dictionaries of \<open>lib/attributes.js\<close> hold strings, so a bracket read on one of them
  gives a string it owns, or what the object inherits: a built-in function, the
  prototype object, or \<open>undefined\<close>. These are the values of \<open>name_val\<close>.
\<close>

datatype name_val =
    NStr string
  | NNative string
  | NObjectPrototype
  | NUndefined

fun name_truthy :: "name_val \<Rightarrow> bool" where
  "name_truthy (NStr s) = (s \<noteq> [])"
| "name_truthy (NNative n) = True"
| "name_truthy NObjectPrototype = True"
| "name_truthy NUndefined = False"

text \<open>
  A value used as a property name is converted to a string: a string is itself, a
  built-in function is its source text, the prototype object is \<open>[object Object]\<close>.
\<close>

fun prop_key :: "name_val \<Rightarrow> string" where
  "prop_key (NStr s) = s"
| "prop_key (NNative n) = ''function '' @ n @ ''() { [native code] }''"
| "prop_key NObjectPrototype = ''[object Object]''"
| "prop_key NUndefined = ''undefined''"

fun to_jsval :: "name_val \<Rightarrow> jsval" where
  "to_jsval (NStr s) = JStr s"
| "to_jsval (NNative n) = JNative n"
| "to_jsval NObjectPrototype = JObjectPrototype"
| "to_jsval NUndefined = JUndefined"

text \<open>
  The properties of \<open>Object.prototype\<close>, which every object literal and every object of the
  SAML library has as its prototype: eleven functions and the accessor \<open>__proto__\<close>, whose
  getter returns the prototype object. The application is taken not to have added to it.
\<close>

definition object_prototype :: "(string \<times> name_val) list" where
  "object_prototype =
    [ (''constructor'', NNative ''Object''),
      (''__defineGetter__'', NNative ''__defineGetter__''),
      (''__defineSetter__'', NNative ''__defineSetter__''),
      (''hasOwnProperty'', NNative ''hasOwnProperty''),
      (''__lookupGetter__'', NNative ''__lookupGetter__''),
      (''__lookupSetter__'', NNative ''__lookupSetter__''),
      (''isPrototypeOf'', NNative ''isPrototypeOf''),
      (''propertyIsEnumerable'', NNative ''propertyIsEnumerable''),
      (''toString'', NNative ''toString''),
      (''valueOf'', NNative ''valueOf''),
      (''__proto__'', NObjectPrototype),
      (''toLocaleString'', NNative ''toLocaleString'') ]"

definition inherited :: "string \<Rightarrow> name_val" where
  "inherited k = (case map_of object_prototype k of None \<Rightarrow> NUndefined | Some v \<Rightarrow> v)"

subsection \<open>Objects\<close>

text \<open>
  An object is modelled by its own enumerable string-keyed properties, in the order
  \<open>Object.entries\<close> lists them: an association list whose keys are distinct. A bracket
  read gives the own property when there is one and the inherited one otherwise. A
  bracket write replaces the value in place when the key exists and appends the entry
  otherwise; a write to \<open>__proto__\<close> on an object that does not own such a property runs
  the inherited setter, which creates no own property (the change of prototype it may
  make is not tracked: nothing below reads from an object it has written to).
\<close>

type_synonym jsobj = "(string \<times> jsval) list"

definition obj_get :: "jsobj \<Rightarrow> string \<Rightarrow> jsval" where
  "obj_get obj k = (case map_of obj k of None \<Rightarrow> to_jsval (inherited k) | Some v \<Rightarrow> v)"

definition obj_set :: "jsobj \<Rightarrow> string \<Rightarrow> jsval \<Rightarrow> jsobj" where
  "obj_set obj k v =
     (if k = ''__proto__'' \<and> map_of obj k = None then obj else AList.update k v obj)"

definition obj_keys :: "jsobj \<Rightarrow> string set" where
  "obj_keys obj = fst ` set obj"

text \<open>A bracket read on a dictionary of strings.\<close>

definition dict_get :: "(string \<times> string) list \<Rightarrow> string \<Rightarrow> name_val" where
  "dict_get dict k = (case map_of dict k of None \<Rightarrow> inherited k | Some s \<Rightarrow> NStr s)"

section \<open>lib/attributes.js\<close>

subsection \<open>The attribute dictionary\<close>

definition ATTRIBUTE_MAPPINGS :: "(string \<times> string) list" where
  "ATTRIBUTE_MAPPINGS =
    [ (''urn:mace:dir:attribute-def:ubcEduCwlPuid'', ''ubcEduCwlPuid''),
      (''urn:oid:1.3.6.1.4.1.60.6.1.6'', ''ubcEduCwlPuid''),
      (''urn:oid:1.3.6.1.4.1.5923.1.1.1.1'', ''eduPersonAffiliation''),
      (''urn:oid:0.9.2342.19200300.100.1.3'', ''mail''),
      (''urn:oid:2.5.4.4'', ''sn''),
      (''urn:oid:2.5.4.42'', ''givenName''),
      (''urn:oid:2.16.840.1.113730.3.1.241'', ''displayName'') ]"

text \<open>
  \<open>getFriendlyName(oid)\<close> is \<open>ATTRIBUTE_MAPPINGS[oid] || oid\<close>. The read goes through the
  prototype, so for an \<open>oid\<close> such as \<open>constructor\<close> the result is a function, not a string.
\<close>

definition getFriendlyName :: "string \<Rightarrow> name_val" where
  "getFriendlyName oid =
     (let hit = dict_get ATTRIBUTE_MAPPINGS oid in
      if name_truthy hit then hit else NStr oid)"

subsection \<open>mapAttributes\<close>

text \<open>
  The reverse mapping that \<open>mapAttributes\<close> builds on every call in filter mode:
  \<open>Object.entries(ATTRIBUTE_MAPPINGS).forEach(([oid, friendly]) => friendlyToOid[friendly] = oid)\<close>.
  A later entry with the same friendly name overwrites an earlier one. (No friendly name
  of the dictionary is \<open>__proto__\<close>, so every write is an ordinary one.)
\<close>

definition friendlyToOid :: "(string \<times> string) list" where
  "friendlyToOid =
     fold (\<lambda>(oid, friendly) acc. AList.update friendly oid acc) ATTRIBUTE_MAPPINGS []"

text \<open>
  The body of the first \<open>forEach\<close>: full pass-through with translated keys,
  \<open>mappedUser[getFriendlyName(key)] = value\<close>.
\<close>

definition translate_entry :: "string \<times> jsval \<Rightarrow> jsobj \<Rightarrow> jsobj" where
  "translate_entry =
     (\<lambda>(key, val) mappedUser. obj_set mappedUser (prop_key (getFriendlyName key)) val)"

text \<open>
  The body of the last \<open>forEach\<close>: \<open>oid = friendlyToOid[friendlyName]\<close> is tried first as a
  key of the response, then the requested name itself; both tests are tests of the
  value's truthiness, and all three reads go through the prototype.
\<close>

definition pick_requested :: "jsobj \<Rightarrow> string \<Rightarrow> jsobj \<Rightarrow> jsobj" where
  "pick_requested samlResponse friendlyName mappedUser =
     (let oid = dict_get friendlyToOid friendlyName in
      if name_truthy oid \<and> truthy (obj_get samlResponse (prop_key oid))
      then obj_set mappedUser friendlyName (obj_get samlResponse (prop_key oid))
      else if truthy (obj_get samlResponse friendlyName)
      then obj_set mappedUser friendlyName (obj_get samlResponse friendlyName)
      else mappedUser)"

text \<open>
  \<open>mapAttributes(samlResponse, requestedAttributes)\<close>. The first argument is \<open>None\<close> for a
  \<open>null\<close> or \<open>undefined\<close> response, the second is \<open>None\<close> for an absent list.
\<close>

definition mapAttributes :: "jsobj option \<Rightarrow> string list option \<Rightarrow> jsobj" where
  "mapAttributes samlResponse requestedAttributes =
     (case samlResponse of
        None \<Rightarrow> []
      | Some resp \<Rightarrow>
          (case requestedAttributes of
             None \<Rightarrow> fold translate_entry resp []
           | Some names \<Rightarrow>
               if length names = 0 then fold translate_entry resp []
               else fold (pick_requested resp) names []))"

section \<open>index.js\<close>

subsection \<open>Errors and observable effects\<close>

text \<open>
  Every \<open>throw\<close> of the source is a constructor here:
  \<^item> \<open>OptionsMissing\<close>: \<open>Options must be provided to UBCStrategy\<close>;
  \<^item> \<open>VerifyMissing\<close>: \<open>Verify callback must be provided to UBCStrategy\<close>;
  \<^item> \<open>PrivateKeyUnreadable p m\<close>: \<open>Failed to load private key from p: m\<close>;
  \<^item> \<open>CertificateRequired\<close>: \<open>SAML certificate is required. ...\<close>;
  \<^item> \<open>NoCertificateFound\<close>: \<open>No X509Certificate found in IdP metadata\<close>;
  \<^item> \<open>TransportError m\<close>: the \<open>error\<close> event of the HTTP(S) request;
  \<^item> \<open>EngineRejected m\<close>: an exception of the parent \<open>SamlStrategy\<close> constructor;
  \<^item> \<open>TypeErrorUndefined p\<close>: reading property \<open>p\<close> of \<open>undefined\<close>.
\<close>

datatype error =
    OptionsMissing
  | VerifyMissing
  | PrivateKeyUnreadable string string
  | CertificateRequired
  | NoCertificateFound
  | TransportError string
  | EngineRejected string
  | TypeErrorUndefined string

text \<open>The \<open>message\<close> property of each error.\<close>

fun error_message :: "error \<Rightarrow> string" where
  "error_message OptionsMissing = ''Options must be provided to UBCStrategy''"
| "error_message VerifyMissing = ''Verify callback must be provided to UBCStrategy''"
| "error_message (PrivateKeyUnreadable p m) =
     ''Failed to load private key from '' @ p @ '': '' @ m"
| "error_message CertificateRequired =
     ''SAML certificate is required. '' @
     ''Either provide options.cert directly, '' @
     ''or set up certificate fetching from IdP metadata.''"
| "error_message NoCertificateFound = ''No X509Certificate found in IdP metadata''"
| "error_message (TransportError m) = m"
| "error_message (EngineRejected m) = m"
| "error_message (TypeErrorUndefined p) =
     ''Cannot read properties of undefined (reading '' @ [CHR 0x27] @ p @ [CHR 0x27] @ '')''"

text \<open>
  The effects a claim can ask about: a file read, the start of the metadata request, a
  line on the error console.
\<close>

datatype event =
    ReadFile string
  | FetchStarted string
  | ConsoleError string

subsection \<open>Strings\<close>

text \<open>
  \<open>a || b\<close> on a string that may be absent: the empty string is falsy as well.
\<close>

definition str_truthy :: "string option \<Rightarrow> bool" where
  "str_truthy a = (case a of None \<Rightarrow> False | Some s \<Rightarrow> s \<noteq> [])"

definition str_or :: "string option \<Rightarrow> string \<Rightarrow> string" where
  "str_or a b = (if str_truthy a then the a else b)"

text \<open>
  \<open>String.prototype.toUpperCase\<close>. Strings are sequences of bytes here (UTF-8). On a string
  of ASCII characters the method maps \<open>a\<close> to \<open>z\<close> onto \<open>A\<close> to \<open>Z\<close> and keeps every other
  character. On any other string it applies the Unicode case mapping of the JavaScript
  engine, which is a parameter: \<open>unicode_upper\<close>.
\<close>

definition is_ascii :: "char \<Rightarrow> bool" where
  "is_ascii c \<longleftrightarrow> \<not> digit7 c"

definition upper_char :: "char \<Rightarrow> char" where
  "upper_char c =
     (case map_of (zip ''abcdefghijklmnopqrstuvwxyz'' ''ABCDEFGHIJKLMNOPQRSTUVWXYZ'') c of
        None \<Rightarrow> c
      | Some u \<Rightarrow> u)"

definition toUpperCase :: "(string \<Rightarrow> string) \<Rightarrow> string \<Rightarrow> string" where
  "toUpperCase unicode_upper s =
     (if list_all is_ascii s then map upper_char s else unicode_upper s)"

subsection \<open>The environment table\<close>

record env_profile =
  entryPoint :: string
  logoutUrl :: string
  metadataUrl :: string

definition LOCAL :: env_profile where
  "LOCAL =
     \<lparr> entryPoint = ''http://localhost:8080/simplesaml/saml2/idp/SSOService.php'',
       logoutUrl = ''http://localhost:8080/simplesaml/saml2/idp/SingleLogoutService.php'',
       metadataUrl = ''http://localhost:8080/simplesaml/saml2/idp/metadata.php'' \<rparr>"

definition STAGING :: env_profile where
  "STAGING =
     \<lparr> entryPoint = ''https://authentication.stg.id.ubc.ca/idp/profile/SAML2/Redirect/SSO'',
       logoutUrl = ''https://authentication.stg.id.ubc.ca/idp/profile/Logout'',
       metadataUrl = ''https://authentication.stg.id.ubc.ca/idp/shibboleth'' \<rparr>"

definition PRODUCTION :: env_profile where
  "PRODUCTION =
     \<lparr> entryPoint = ''https://authentication.ubc.ca/idp/profile/SAML2/Redirect/SSO'',
       logoutUrl = ''https://authentication.ubc.ca/idp/profile/Logout'',
       metadataUrl = ''https://authentication.ubc.ca/idp/shibboleth'' \<rparr>"

definition UBC_CONFIG :: "(string \<times> env_profile) list" where
  "UBC_CONFIG = [(''LOCAL'', LOCAL), (''STAGING'', STAGING), (''PRODUCTION'', PRODUCTION)]"

text \<open>The part of \<open>process.env\<close> that \<open>index.js\<close> reads.\<close>

record process_env =
  SAML_ENVIRONMENT :: "string option"
  SAML_LOGOUT_URL :: "string option"

text \<open>
  \<open>(process.env.SAML_ENVIRONMENT || 'STAGING').toUpperCase()\<close>, the expression both the
  constructor and the logout middleware start from.
\<close>

definition environment :: "(string \<Rightarrow> string) \<Rightarrow> process_env \<Rightarrow> string" where
  "environment unicode_upper penv =
     toUpperCase unicode_upper (str_or (SAML_ENVIRONMENT penv) ''STAGING'')"

text \<open>
  The constructor's \<open>UBC_CONFIG[environment] || UBC_CONFIG.STAGING\<close>. The read is a read of
  an own property or of nothing: every property that the table inherits has a lower-case
  letter in its name, and an upper-cased name has none.
\<close>

definition ubcConfig :: "(string \<Rightarrow> string) \<Rightarrow> process_env \<Rightarrow> env_profile" where
  "ubcConfig unicode_upper penv =
     (case map_of UBC_CONFIG (environment unicode_upper penv) of
        None \<Rightarrow> STAGING
      | Some profile \<Rightarrow> profile)"

subsection \<open>loadPrivateKey\<close>

text \<open>
  The file system is a parameter: \<open>read p\<close> is \<open>Inr\<close> the content that \<open>readFileSync\<close>
  returns for the path \<open>p\<close> (resolved against the working directory when relative), or
  \<open>Inl\<close> the message of the exception it throws. A missing or empty path gives \<open>null\<close>.
\<close>

definition loadPrivateKey ::
  "(string \<Rightarrow> string + string) \<Rightarrow> string option \<Rightarrow> (error + string option) \<times> event list" where
  "loadPrivateKey read keyPath =
     (if \<not> str_truthy keyPath then (Inr None, [])
      else (case read (the keyPath) of
              Inl m \<Rightarrow> (Inl (PrivateKeyUnreadable (the keyPath) m), [ReadFile (the keyPath)])
            | Inr pem \<Rightarrow> (Inr (Some pem), [ReadFile (the keyPath)])))"

subsection \<open>extractCertFromMetadata\<close>

text \<open>
  The regular expression is
  \<^verbatim>\<open><ds:X509Certificate[^>]*>([A-Za-z0-9+/=]+)</ds:X509Certificate>\<close>
  (the source escapes the slash of the closing tag).
  At a given start position its match is unique: \<open>[^>]*\<close> is followed by \<open>>\<close>, so it ends at
  the first \<open>>\<close>; the capture group is followed by \<open><\<close>, which is not in its class, so it is the
  longest run of class characters, and it must not be empty. \<open>String.prototype.match\<close>
  returns the match at the leftmost start position that has one.
\<close>

definition is_base64_char :: "char \<Rightarrow> bool" where
  "is_base64_char c \<longleftrightarrow>
     c \<in> set ''ABCDEFGHIJKLMNOPQRSTUVWXYZabcdefghijklmnopqrstuvwxyz0123456789+/=''"

fun strip_prefix :: "string \<Rightarrow> string \<Rightarrow> string option" where
  "strip_prefix [] s = Some s"
| "strip_prefix (p # ps) [] = None"
| "strip_prefix (p # ps) (c # cs) = (if p = c then strip_prefix ps cs else None)"

definition open_tag :: string where
  "open_tag = ''<ds:X509Certificate''"

definition close_tag :: string where
  "close_tag = ''</ds:X509Certificate>''"

text \<open>The capture group of a match that starts at the head of the input.\<close>

definition match_here :: "string \<Rightarrow> string option" where
  "match_here s =
     (case strip_prefix open_tag s of
        None \<Rightarrow> None
      | Some rest \<Rightarrow>
          (case dropWhile (\<lambda>c. c \<noteq> CHR ''>'') rest of
             [] \<Rightarrow> None
           | gt # body \<Rightarrow>
               (let captured = takeWhile is_base64_char body in
                if captured \<noteq> [] \<and> strip_prefix close_tag (dropWhile is_base64_char body) \<noteq> None
                then Some captured else None)))"

fun cert_match :: "string \<Rightarrow> string option" where
  "cert_match [] = match_here []"
| "cert_match (c # cs) =
     (case match_here (c # cs) of
        Some captured \<Rightarrow> Some captured
      | None \<Rightarrow> cert_match cs)"

definition extractCertFromMetadata :: "string \<Rightarrow> error + string" where
  "extractCertFromMetadata metadataXml =
     (case cert_match metadataXml of
        None \<Rightarrow> Inl NoCertificateFound
      | Some captured \<Rightarrow> if captured = [] then Inl NoCertificateFound else Inr captured)"

subsection \<open>fetchIdPCertificate\<close>

text \<open>
  The network is a parameter: \<open>http_get url\<close> is either the transport error the request
  emits or the accumulated response body. The status code is not looked at.
\<close>

definition fetchIdPCertificate :: "(string \<Rightarrow> string + string) \<Rightarrow> string \<Rightarrow> error + string" where
  "fetchIdPCertificate http_get url =
     (case http_get url of
        Inl msg \<Rightarrow> Inl (TransportError msg)
      | Inr body \<Rightarrow> extractCertFromMetadata body)"

subsection \<open>The strategy's configuration objects\<close>

text \<open>
  Three objects of the constructor share field names (\<open>cert\<close>, \<open>logoutUrl\<close>, ...), so the
  fields carry a prefix here: \<open>o_\<close> for the caller's \<open>options\<close>, \<open>s_\<close> for \<open>samlOptions\<close>,
  \<open>u_\<close> for \<open>ubcOptionsToStore\<close>. A field of \<open>options\<close> is \<open>None\<close> when the caller left it
  out.
\<close>

record options =
  o_entryPoint :: "string option"
  o_logoutUrl :: "string option"
  o_issuer :: "string option"
  o_callbackUrl :: "string option"
  o_privateKeyPath :: "string option"
  o_signatureAlgorithm :: "string option"
  o_digestAlgorithm :: "string option"
  o_validateInResponseTo :: "bool option"
  o_acceptedClockSkewMs :: "int option"
  o_cert :: "string option"
  o_authnRequestBinding :: "string option"
  o_identifierFormat :: "string option"
  o_attributeConfig :: "string list option"
  o_enableSLO :: "bool option"
  o_metadataUrl :: "string option"

record saml_options =
  s_entryPoint :: string
  s_logoutUrl :: string
  s_issuer :: "string option"
  s_callbackUrl :: "string option"
  s_privateKey :: "string option"
  s_decryptionPvk :: "string option"
  s_signatureAlgorithm :: string
  s_digestAlgorithm :: string
  s_validateInResponseTo :: bool
  s_acceptedClockSkewMs :: int
  s_cert :: string
  s_authnRequestBinding :: string
  s_identifierFormat :: "string option"

record ubc_options =
  u_attributeConfig :: "string list"
  u_enableSLO :: bool
  u_metadataUrl :: string
  u_environment :: string
  u_cert :: "string option"

text \<open>
  The strategy object after construction (prefix \<open>t_\<close>): \<open>this.ubcOptions\<close>,
  \<open>this.name\<close>, \<open>this._samlOptions\<close>, and the parent's \<open>certs\<close> field, which may not
  exist.
\<close>

record strategy =
  t_ubcOptions :: ubc_options
  t_name :: string
  t_samlOptions :: saml_options
  t_certs :: "string list option"

text \<open>
  What the constructor depends on besides its arguments: the file system, the process
  environment, the engine's Unicode case mapping (see \<open>toUpperCase\<close>), and the parent
  class of the external SAML library. \<open>w_engine w so\<close> is what
  \<open>super(samlOptions, wrappedVerify)\<close> does: \<open>Inl m\<close> when the parent's constructor throws,
  \<open>Inr c\<close> when it returns, \<open>c\<close> being the \<open>certs\<close> field it leaves on the object.
\<close>

record world =
  w_fs :: "string \<Rightarrow> string + string"
  w_env :: process_env
  w_upper :: "string \<Rightarrow> string"
  w_engine :: "saml_options \<Rightarrow> string + string list option"

subsection \<open>The wrapped verify callback\<close>

text \<open>
  \<open>{...profile}\<close> copies the own properties of the profile; spreading \<open>null\<close> gives the
  empty object.
\<close>

definition spread :: "jsobj option \<Rightarrow> jsobj" where
  "spread profile = (case profile of None \<Rightarrow> [] | Some obj \<Rightarrow> obj)"

definition mappedProfile :: "string list \<Rightarrow> jsobj option \<Rightarrow> jsobj" where
  "mappedProfile attributeConfig profile =
     (if length attributeConfig > 0
      then obj_set (spread profile) ''attributes''
             (JObj (mapAttributes profile (Some attributeConfig)))
      else spread profile)"

definition wrappedVerify ::
  "string list \<Rightarrow> (jsobj \<Rightarrow> 'd \<Rightarrow> 'r) \<Rightarrow> jsobj option \<Rightarrow> 'd \<Rightarrow> 'r" where
  "wrappedVerify attributeConfig verify profile done =
     verify (mappedProfile attributeConfig profile) done"

subsection \<open>UBCStrategy\<close>

text \<open>
  The constructor, in the order the source evaluates: the two argument checks, the
  environment, the properties of the \<open>samlOptions\<close> literal from top to bottom (the key file
  is read once for \<open>privateKey\<close> and once more for \<open>decryptionPvk\<close>; the \<open>cert\<close> property
  throws when \<open>options.cert\<close> is falsy), \<open>ubcOptionsToStore\<close>, the parent's constructor, and
  at last the test that starts \<open>_fetchCertificate\<close>. The result pairs the outcome with the
  effects that happened up to it.
\<close>

definition build_samlOptions ::
  "env_profile \<Rightarrow> options \<Rightarrow> string option \<Rightarrow> string option \<Rightarrow> saml_options" where
  "build_samlOptions cfg opts privateKey decryptionPvk =
     \<lparr> s_entryPoint = str_or (o_entryPoint opts) (entryPoint cfg),
       s_logoutUrl = str_or (o_logoutUrl opts) (logoutUrl cfg),
       s_issuer = o_issuer opts,
       s_callbackUrl = o_callbackUrl opts,
       s_privateKey = privateKey,
       s_decryptionPvk = decryptionPvk,
       s_signatureAlgorithm = str_or (o_signatureAlgorithm opts) ''sha256'',
       s_digestAlgorithm = str_or (o_digestAlgorithm opts) ''sha256'',
       s_validateInResponseTo = (o_validateInResponseTo opts \<noteq> Some False),
       s_acceptedClockSkewMs = (case o_acceptedClockSkewMs opts of None \<Rightarrow> 0 | Some n \<Rightarrow> n),
       s_cert = the (o_cert opts),
       s_authnRequestBinding =
         str_or (o_authnRequestBinding opts)
           ''urn:oasis:names:tc:SAML:2.0:bindings:HTTP-Redirect'',
       s_identifierFormat =
         (if str_truthy (o_identifierFormat opts) then o_identifierFormat opts else None) \<rparr>"

definition build_ubcOptions :: "world \<Rightarrow> options \<Rightarrow> ubc_options" where
  "build_ubcOptions w opts =
     \<lparr> u_attributeConfig = (case o_attributeConfig opts of None \<Rightarrow> [] | Some names \<Rightarrow> names),
       u_enableSLO = (o_enableSLO opts \<noteq> Some False),
       u_metadataUrl =
         str_or (o_metadataUrl opts) (metadataUrl (ubcConfig (w_upper w) (w_env w))),
       u_environment = environment (w_upper w) (w_env w),
       u_cert = o_cert opts \<rparr>"

definition UBCStrategy ::
  "world \<Rightarrow> options option \<Rightarrow> 'v option \<Rightarrow> (error + strategy) \<times> event list" where
  "UBCStrategy w options verify =
     (case options of
        None \<Rightarrow> (Inl OptionsMissing, [])
      | Some opts \<Rightarrow>
     (case verify of
        None \<Rightarrow> (Inl VerifyMissing, [])
      | Some vf \<Rightarrow>
     (case loadPrivateKey (w_fs w) (o_privateKeyPath opts) of
        (Inl e, ev1) \<Rightarrow> (Inl e, ev1)
      | (Inr privateKey, ev1) \<Rightarrow>
     (case loadPrivateKey (w_fs w) (o_privateKeyPath opts) of
        (Inl e, ev2) \<Rightarrow> (Inl e, ev1 @ ev2)
      | (Inr decryptionPvk, ev2) \<Rightarrow>
     (if \<not> str_truthy (o_cert opts) then (Inl CertificateRequired, ev1 @ ev2)
      else
        (let so = build_samlOptions (ubcConfig (w_upper w) (w_env w)) opts privateKey
                    decryptionPvk;
             uo = build_ubcOptions w opts
         in (case w_engine w so of
               Inl msg \<Rightarrow> (Inl (EngineRejected msg), ev1 @ ev2)
             | Inr parent_certs \<Rightarrow>
                 (Inr \<lparr> t_ubcOptions = uo, t_name = ''ubcshib'', t_samlOptions = so,
                        t_certs = parent_certs \<rparr>,
                  ev1 @ ev2 @
                  (if s_cert so = [] \<and> u_metadataUrl uo \<noteq> []
                   then [FetchStarted (u_metadataUrl uo)] else [])))))))))"

text \<open>
  \<open>_fetchCertificate\<close>, given what \<open>fetchIdPCertificate\<close> settles with: the certificate is
  stored, or the failure is written to the console and the strategy is left as it was.
\<close>

definition fetchCertificate :: "strategy \<Rightarrow> error + string \<Rightarrow> strategy \<times> event list" where
  "fetchCertificate this outcome =
     (case outcome of
        Inr cert \<Rightarrow>
          (this \<lparr> t_samlOptions := (t_samlOptions this) \<lparr> s_cert := cert \<rparr>,
                  t_certs := (case t_certs this of None \<Rightarrow> None | Some old \<Rightarrow> Some [cert]) \<rparr>,
           [])
      | Inl err \<Rightarrow>
          (this, [ConsoleError (''Failed to fetch IdP certificate: '' @ error_message err)]))"

subsection \<open>logout\<close>

text \<open>
  The request as far as the middleware touches it, and what one run of the middleware
  leaves behind. \<open>req_logout\<close> is the host framework's \<open>req.logout(callback)\<close>: it returns
  the request after the call and the error, if any, that it hands to the callback.
\<close>

record request =
  req_user :: "string option"

record logout_outcome =
  req_after :: request
  redirect_to :: string
  console_error :: "string list"

text \<open>
  \<open>process.env.SAML_LOGOUT_URL || UBC_CONFIG[environment].logoutUrl\<close>: the table is indexed
  without a fallback, so an environment that is not in the table makes the property
  access throw, unless the override is set (then the right operand is not evaluated).
\<close>

definition logout_target :: "(string \<Rightarrow> string) \<Rightarrow> process_env \<Rightarrow> error + string" where
  "logout_target unicode_upper pe =
     (if str_truthy (SAML_LOGOUT_URL pe) then Inr (the (SAML_LOGOUT_URL pe))
      else (case map_of UBC_CONFIG (environment unicode_upper pe) of
              None \<Rightarrow> Inl (TypeErrorUndefined ''logoutUrl'')
            | Some profile \<Rightarrow> Inr (logoutUrl profile)))"

text \<open>
  \<open>logout(returnUrl = '/')\<close> returns the middleware; the model applies it to a request at
  once. The return URL is bound (with its default) and not used again. The first
  argument is the engine's Unicode case mapping (see \<open>toUpperCase\<close>).
\<close>

definition logout ::
  "(string \<Rightarrow> string) \<Rightarrow> string option \<Rightarrow> process_env
     \<Rightarrow> (request \<Rightarrow> request \<times> string option) \<Rightarrow> request \<Rightarrow> error + logout_outcome" where
  "logout unicode_upper returnUrl_arg pe req_logout req =
     (let returnUrl = (case returnUrl_arg of None \<Rightarrow> ''/'' | Some r \<Rightarrow> r) in
      case logout_target unicode_upper pe of
        Inl e \<Rightarrow> Inl e
      | Inr target \<Rightarrow>
          (let (req', err) = req_logout req;
               finalUrl = target
           in Inr \<lparr> req_after = req',
                    redirect_to = finalUrl,
                    console_error = (case err of None \<Rightarrow> [] | Some m \<Rightarrow> [''Logout error: '' @ m]) \<rparr>))"

subsection \<open>Sample inputs\<close>

text \<open>
  Inputs for the evaluations below: a process environment with neither variable set; an
  options object with exactly the two options the README lists as required; a parent
  constructor that accepts every configuration and leaves no \<open>certs\<close> field; a file system
  without files; a host framework whose \<open>req.logout\<close> clears the session and reports
  no error; and, for the case mapping of names with characters outside ASCII, which no
  sample has, the identity.
\<close>

definition env_unset :: process_env where
  "env_unset = \<lparr> SAML_ENVIRONMENT = None, SAML_LOGOUT_URL = None \<rparr>"

definition required_options :: options where
  "required_options =
     \<lparr> o_entryPoint = None, o_logoutUrl = None,
       o_issuer = Some ''https://myapp.example.com/shibboleth'',
       o_callbackUrl = Some ''https://myapp.example.com/auth/ubcshib/callback'',
       o_privateKeyPath = None, o_signatureAlgorithm = None, o_digestAlgorithm = None,
       o_validateInResponseTo = None, o_acceptedClockSkewMs = None, o_cert = None,
       o_authnRequestBinding = None, o_identifierFormat = None, o_attributeConfig = None,
       o_enableSLO = None, o_metadataUrl = None \<rparr>"

definition accepting_engine :: "saml_options \<Rightarrow> string + string list option" where
  "accepting_engine so = Inr None"

definition no_files :: "string \<Rightarrow> string + string" where
  "no_files p = Inl ''ENOENT: no such file or directory''"

definition no_unicode :: "string \<Rightarrow> string" where
  "no_unicode s = s"

definition sample_world :: world where
  "sample_world =
     \<lparr> w_fs = no_files, w_env = env_unset, w_upper = no_unicode,
       w_engine = accepting_engine \<rparr>"

definition clear_session :: "request \<Rightarrow> request \<times> string option" where
  "clear_session req = (req \<lparr> req_user := None \<rparr>, None)"

section \<open>Properties of the attribute mapper\<close>

subsection \<open>Objects\<close>

lemma obj_keys_Nil [simp]: "obj_keys [] = {}"
  by (simp add: obj_keys_def)

lemma obj_keys_Cons [simp]: "obj_keys ((k, v) # obj) = insert k (obj_keys obj)"
  by (simp add: obj_keys_def)


lemma obj_keys_set:
  "obj_keys (obj_set obj k v) =
     (if k = ''__proto__'' \<and> k \<notin> obj_keys obj then obj_keys obj else insert k (obj_keys obj))"
  by (auto simp: obj_set_def obj_keys_def dom_update map_of_eq_None_iff)

lemma obj_keys_set_ordinary [simp]:
  "k \<noteq> ''__proto__'' \<Longrightarrow> obj_keys (obj_set obj k v) = insert k (obj_keys obj)"
  by (simp add: obj_keys_set)

lemma obj_get_set:
  "k \<noteq> ''__proto__'' \<Longrightarrow> obj_get (obj_set obj k v) k' = (if k' = k then v else obj_get obj k')"
  by (simp add: obj_get_def obj_set_def update_conv')



text \<open>A name inherits nothing exactly when \<open>Object.prototype\<close> has no property of that name.\<close>

lemma inherited_NUndefined_iff: "inherited k = NUndefined \<longleftrightarrow> k \<notin> fst ` set object_prototype"
proof
  assume "inherited k = NUndefined"
  show "k \<notin> fst ` set object_prototype"
  proof
    assume "k \<in> fst ` set object_prototype"
    then obtain v where v: "map_of object_prototype k = Some v"
      by (metis map_of_eq_None_iff not_Some_eq)
    then have "(k, v) \<in> set object_prototype" by (rule map_of_SomeD)
    then have "v \<noteq> NUndefined" by (auto simp: object_prototype_def)
    with v \<open>inherited k = NUndefined\<close> show False by (simp add: inherited_def)
  qed
next
  assume "k \<notin> fst ` set object_prototype"
  then have "map_of object_prototype k = None" by (simp add: map_of_eq_None_iff)
  then show "inherited k = NUndefined" by (simp add: inherited_def)
qed

lemma inherited_not_string: "inherited k \<noteq> NStr s"
proof (cases "map_of object_prototype k")
  case None
  then show ?thesis by (simp add: inherited_def)
next
  case (Some v)
  then have "(k, v) \<in> set object_prototype" by (rule map_of_SomeD)
  then have "v \<noteq> NStr s" by (auto simp: object_prototype_def)
  with Some show ?thesis by (simp add: inherited_def)
qed

lemma inherited_proto: "inherited ''__proto__'' = NObjectPrototype"
  by (simp add: inherited_def object_prototype_def)

lemma inherited_key_not_proto: "prop_key (inherited k) \<noteq> ''__proto__''"
proof (cases "map_of object_prototype k")
  case None
  then show ?thesis by (simp add: inherited_def)
next
  case (Some v)
  then have "(k, v) \<in> set object_prototype" by (rule map_of_SomeD)
  then have "prop_key v \<noteq> ''__proto__''" by (auto simp: object_prototype_def)
  with Some show ?thesis by (simp add: inherited_def)
qed

subsection \<open>The dictionary and its reverse\<close>

text \<open>
  The reverse mapping has one entry for each friendly name. For \<open>ubcEduCwlPuid\<close> it holds
  the OID identifier, which is registered after the MACE identifier.
\<close>

lemma friendlyToOid_entries:
  "friendlyToOid =
    [ (''ubcEduCwlPuid'', ''urn:oid:1.3.6.1.4.1.60.6.1.6''),
      (''eduPersonAffiliation'', ''urn:oid:1.3.6.1.4.1.5923.1.1.1.1''),
      (''mail'', ''urn:oid:0.9.2342.19200300.100.1.3''),
      (''sn'', ''urn:oid:2.5.4.4''),
      (''givenName'', ''urn:oid:2.5.4.42''),
      (''displayName'', ''urn:oid:2.16.840.1.113730.3.1.241'') ]"
  by (simp add: friendlyToOid_def ATTRIBUTE_MAPPINGS_def)

text \<open>It holds the wire identifier of every entry but the MACE one.\<close>

lemma friendlyToOid_covers:
  "(w, f) \<in> set ATTRIBUTE_MAPPINGS \<Longrightarrow> w \<noteq> ''urn:mace:dir:attribute-def:ubcEduCwlPuid'' \<Longrightarrow>
   map_of friendlyToOid f = Some w"
  by (auto simp: ATTRIBUTE_MAPPINGS_def friendlyToOid_entries)

lemma friendlyToOid_nonempty: "map_of friendlyToOid n = Some w \<Longrightarrow> w \<noteq> []"
  by (auto simp: friendlyToOid_entries split: if_splits)

text \<open>Neither its friendly names nor its wire identifiers are names of inherited properties.\<close>

lemma friendlyToOid_ordinary:
  assumes "map_of friendlyToOid n = Some w"
  shows "inherited w = NUndefined \<and> inherited n = NUndefined \<and> n \<noteq> ''__proto__''"
proof -
  from assms have "(n, w) \<in> set friendlyToOid" by (rule map_of_SomeD)
  then have
    "(n = ''ubcEduCwlPuid'' \<and> w = ''urn:oid:1.3.6.1.4.1.60.6.1.6'')
     \<or> (n = ''eduPersonAffiliation'' \<and> w = ''urn:oid:1.3.6.1.4.1.5923.1.1.1.1'')
     \<or> (n = ''mail'' \<and> w = ''urn:oid:0.9.2342.19200300.100.1.3'')
     \<or> (n = ''sn'' \<and> w = ''urn:oid:2.5.4.4'')
     \<or> (n = ''givenName'' \<and> w = ''urn:oid:2.5.4.42'')
     \<or> (n = ''displayName'' \<and> w = ''urn:oid:2.16.840.1.113730.3.1.241'')"
    by (simp add: friendlyToOid_entries)
  then show ?thesis
    by (elim disjE conjE) (simp_all add: inherited_def object_prototype_def)
qed

lemma friendly_ordinary:
  "map_of ATTRIBUTE_MAPPINGS k = Some f \<Longrightarrow> f \<noteq> [] \<and> f \<noteq> ''__proto__''"
  by (auto simp: ATTRIBUTE_MAPPINGS_def split: if_splits)

lemma dict_get_friendlyToOid_Some:
  "map_of friendlyToOid n = Some w \<Longrightarrow> dict_get friendlyToOid n = NStr w"
  by (simp add: dict_get_def)

lemma dict_get_friendlyToOid_None:
  "map_of friendlyToOid n = None \<Longrightarrow> dict_get friendlyToOid n = inherited n"
  by (simp add: dict_get_def)

text \<open>
  \<open>getFriendlyName\<close>, case by case: the friendly name for a key of the dictionary, the
  inherited value for the name of an inherited property, the key itself otherwise.
\<close>

lemma getFriendlyName_cases:
  "getFriendlyName k =
     (case map_of ATTRIBUTE_MAPPINGS k of
        Some f \<Rightarrow> NStr f
      | None \<Rightarrow> if inherited k = NUndefined then NStr k else inherited k)"
proof (cases "map_of ATTRIBUTE_MAPPINGS k")
  case None
  with inherited_not_string [of k] show ?thesis
    by (cases "inherited k") (simp_all add: getFriendlyName_def dict_get_def Let_def)
next
  case (Some f)
  with friendly_ordinary [OF Some] show ?thesis
    by (simp add: getFriendlyName_def dict_get_def Let_def)
qed

lemma getFriendlyName_ordinary:
  "inherited k = NUndefined \<Longrightarrow>
   prop_key (getFriendlyName k) = (case map_of ATTRIBUTE_MAPPINGS k of None \<Rightarrow> k | Some f \<Rightarrow> f)"
  by (simp add: getFriendlyName_cases split: option.splits)

text \<open>No key is translated to \<open>__proto__\<close>, so every write of the first loop is an ordinary one.\<close>

lemma translated_key_not_proto: "prop_key (getFriendlyName k) \<noteq> ''__proto__''"
proof (cases "map_of ATTRIBUTE_MAPPINGS k")
  case (Some f)
  with friendly_ordinary [OF Some] show ?thesis by (simp add: getFriendlyName_cases)
next
  case None
  show ?thesis
  proof (cases "inherited k = NUndefined")
    case True
    then have "k \<noteq> ''__proto__''" using inherited_proto by auto
    with None True show ?thesis by (simp add: getFriendlyName_cases)
  next
    case False
    with None inherited_key_not_proto [of k] show ?thesis by (simp add: getFriendlyName_cases)
  qed
qed

subsection \<open>Filter mode\<close>

text \<open>
  One step of the loop over the requested names binds the name exactly when one of its
  two lookups finds a truthy value (and the name is not \<open>__proto__\<close>, which is never bound).
\<close>

lemma pick_requested_keys:
  "obj_keys (pick_requested resp n acc) =
     (if n \<noteq> ''__proto__'' \<and>
         ((name_truthy (dict_get friendlyToOid n)
             \<and> truthy (obj_get resp (prop_key (dict_get friendlyToOid n))))
          \<or> truthy (obj_get resp n))
      then insert n (obj_keys acc) else obj_keys acc)"
  by (auto simp: pick_requested_def Let_def obj_keys_set)

lemma fold_pick_requested_keys:
  "obj_keys (fold (pick_requested resp) names acc) =
     obj_keys acc \<union>
     {n \<in> set names. n \<noteq> ''__proto__'' \<and>
        ((name_truthy (dict_get friendlyToOid n)
            \<and> truthy (obj_get resp (prop_key (dict_get friendlyToOid n))))
         \<or> truthy (obj_get resp n))}"
proof (induction names arbitrary: acc)
  case Nil
  then show ?case by simp
next
  case (Cons n names)
  have "obj_keys (fold (pick_requested resp) (n # names) acc) =
        obj_keys (pick_requested resp n acc) \<union>
        {n \<in> set names. n \<noteq> ''__proto__'' \<and>
          ((name_truthy (dict_get friendlyToOid n)
              \<and> truthy (obj_get resp (prop_key (dict_get friendlyToOid n))))
           \<or> truthy (obj_get resp n))}"
    by (simp add: Cons.IH)
  then show ?case
    by (simp only: pick_requested_keys) (auto split: if_splits)
qed

lemma mapAttributes_filter_keys:
  "names \<noteq> [] \<Longrightarrow>
   obj_keys (mapAttributes (Some raw) (Some names)) =
     {n \<in> set names. n \<noteq> ''__proto__'' \<and>
        ((name_truthy (dict_get friendlyToOid n)
            \<and> truthy (obj_get raw (prop_key (dict_get friendlyToOid n))))
         \<or> truthy (obj_get raw n))}"
  by (simp add: mapAttributes_def fold_pick_requested_keys)




text \<open>
  Claim C10, as stated, fails: the wire identifier of \<open>mail\<close> is present and bound to the
  empty string, yet \<open>mail\<close> is not omitted, because the second lookup finds the key
  \<open>mail\<close> itself bound to a truthy value.
\<close>

theorem mapAttributes_falsy_counterexample:
  "map_of friendlyToOid ''mail'' = Some ''urn:oid:0.9.2342.19200300.100.1.3''
   \<and> obj_get [(''urn:oid:0.9.2342.19200300.100.1.3'', JStr ''''), (''mail'', JStr ''a@ubc.ca'')]
        ''urn:oid:0.9.2342.19200300.100.1.3'' = JStr ''''
   \<and> mapAttributes
        (Some [(''urn:oid:0.9.2342.19200300.100.1.3'', JStr ''''), (''mail'', JStr ''a@ubc.ca'')])
        (Some [''mail''])
      = [(''mail'', JStr ''a@ubc.ca'')]"
  by (simp add: friendlyToOid_entries mapAttributes_def pick_requested_def dict_get_def
      obj_get_def obj_set_def)

text \<open>
  For a name that inherits nothing, the key that the read \<open>friendlyToOid[name]\<close> resolves
  to is the wire identifier of the reverse mapping, if there is one.
\<close>

lemma reverse_lookup_ordinary:
  assumes "inherited n = NUndefined"
  shows "(name_truthy (dict_get friendlyToOid n)
            \<longrightarrow> \<not> truthy (obj_get raw (prop_key (dict_get friendlyToOid n))))
         \<longleftrightarrow> (\<forall>w. map_of friendlyToOid n = Some w \<longrightarrow> \<not> truthy (obj_get raw w))"
proof (cases "map_of friendlyToOid n")
  case None
  with assms show ?thesis by (simp add: dict_get_friendlyToOid_None)
next
  case (Some w)
  with friendlyToOid_nonempty [OF Some] show ?thesis
    by (simp add: dict_get_friendlyToOid_Some)
qed

text \<open>
  Claim C10, amended. A requested friendly name whose wire identifier, or which itself,
  is a key of the raw attributes bound to a falsy value is omitted from the result,
  provided the other of the two keys is not bound to a truthy value: presence is tested
  by the truthiness of the value, not by key membership. (The other key of a name that is
  itself a key is the one that the read \<open>friendlyToOid[name]\<close> of the code resolves to.)
\<close>

theorem mapAttributes_omits_falsy:
  assumes "n \<in> set names"
    and "(\<exists>w. map_of friendlyToOid n = Some w \<and> w \<in> obj_keys raw
              \<and> \<not> truthy (obj_get raw w) \<and> \<not> truthy (obj_get raw n))
         \<or> (n \<in> obj_keys raw \<and> \<not> truthy (obj_get raw n)
              \<and> (name_truthy (dict_get friendlyToOid n)
                    \<longrightarrow> \<not> truthy (obj_get raw (prop_key (dict_get friendlyToOid n)))))"
  shows "n \<notin> obj_keys (mapAttributes (Some raw) (Some names))"
proof -
  from assms(1) have ne: "names \<noteq> []" by auto
  from assms(2) have verbatim: "\<not> truthy (obj_get raw n)" by blast
  from assms(2)
  have wire: "\<not> (name_truthy (dict_get friendlyToOid n)
                \<and> truthy (obj_get raw (prop_key (dict_get friendlyToOid n))))"
  proof (elim disjE exE conjE)
    fix w
    assume "map_of friendlyToOid n = Some w" and "\<not> truthy (obj_get raw w)"
    then show ?thesis by (simp add: dict_get_friendlyToOid_Some)
  next
    assume "name_truthy (dict_get friendlyToOid n)
              \<longrightarrow> \<not> truthy (obj_get raw (prop_key (dict_get friendlyToOid n)))"
    then show ?thesis by blast
  qed
  from verbatim wire show ?thesis
    by (simp add: mapAttributes_filter_keys [OF ne])
qed

text \<open>
  Claim C10, amended, at an input: the assertion binds the wire identifier of \<open>mail\<close> to
  the empty string and has no key \<open>mail\<close>.
\<close>

theorem mapAttributes_omits_falsy_witness:
  "''mail'' \<in> set [''mail'']
   \<and> map_of friendlyToOid ''mail'' = Some ''urn:oid:0.9.2342.19200300.100.1.3''
   \<and> ''urn:oid:0.9.2342.19200300.100.1.3''
        \<in> obj_keys [(''urn:oid:0.9.2342.19200300.100.1.3'', JStr '''')]
   \<and> \<not> truthy (obj_get [(''urn:oid:0.9.2342.19200300.100.1.3'', JStr '''')]
                  ''urn:oid:0.9.2342.19200300.100.1.3'')
   \<and> \<not> truthy (obj_get [(''urn:oid:0.9.2342.19200300.100.1.3'', JStr '''')] ''mail'')
   \<and> ''mail'' \<notin> obj_keys (mapAttributes
         (Some [(''urn:oid:0.9.2342.19200300.100.1.3'', JStr '''')]) (Some [''mail'']))"
proof -
  let ?raw = "[(''urn:oid:0.9.2342.19200300.100.1.3'', JStr '''')]"
  have a: "''mail'' \<in> set [''mail'']" by simp
  have b: "map_of friendlyToOid ''mail'' = Some ''urn:oid:0.9.2342.19200300.100.1.3''"
    by (simp add: friendlyToOid_entries)
  have c: "''urn:oid:0.9.2342.19200300.100.1.3'' \<in> obj_keys ?raw"
    by simp
  have d: "\<not> truthy (obj_get ?raw ''urn:oid:0.9.2342.19200300.100.1.3'')"
    by (simp add: obj_get_def)
  have e: "\<not> truthy (obj_get ?raw ''mail'')"
    by (simp add: obj_get_def inherited_def object_prototype_def)
  from b c d e have h:
    "(\<exists>w. map_of friendlyToOid ''mail'' = Some w \<and> w \<in> obj_keys ?raw
          \<and> \<not> truthy (obj_get ?raw w) \<and> \<not> truthy (obj_get ?raw ''mail''))
     \<or> (''mail'' \<in> obj_keys ?raw \<and> \<not> truthy (obj_get ?raw ''mail'')
          \<and> (name_truthy (dict_get friendlyToOid ''mail'')
                \<longrightarrow> \<not> truthy (obj_get ?raw (prop_key (dict_get friendlyToOid ''mail'')))))"
    by blast
  from mapAttributes_omits_falsy [OF a h] a b c d e show ?thesis by blast
qed

text \<open>
  What holds of the round trip: for an entry of the dictionary whose wire identifier is
  the one the reverse lookup holds, and a truthy value, the one attribute comes back
  under its friendly name.
\<close>

lemma roundtrip_of_reverse_entry:
  assumes "map_of friendlyToOid friendly = Some wireId" and "truthy v"
  shows "mapAttributes (Some [(wireId, v)]) (Some [friendly]) = [(friendly, v)]"
proof -
  from friendlyToOid_ordinary [OF assms(1)] have "friendly \<noteq> ''__proto__''" by simp
  with assms friendlyToOid_nonempty [OF assms(1)] show ?thesis
    by (simp add: mapAttributes_def pick_requested_def dict_get_def obj_get_def obj_set_def)
qed

text \<open>
  Claim C3 at the first entry of the dictionary, the MACE identifier of \<open>ubcEduCwlPuid\<close>,
  with the value \<open>12345678\<close>: the reverse lookup holds the OID identifier for that friendly
  name, so the request for \<open>ubcEduCwlPuid\<close> yields the empty object, where the claim asks
  for \<open>{ubcEduCwlPuid: '12345678'}\<close>. The pass-through mode does translate the same
  response.
\<close>

theorem mapAttributes_drops_mace_identifier:
  "(''urn:mace:dir:attribute-def:ubcEduCwlPuid'', ''ubcEduCwlPuid'') \<in> set ATTRIBUTE_MAPPINGS
   \<and> mapAttributes (Some [(''urn:mace:dir:attribute-def:ubcEduCwlPuid'', JStr ''12345678'')])
        (Some [''ubcEduCwlPuid'']) = []
   \<and> mapAttributes (Some [(''urn:mace:dir:attribute-def:ubcEduCwlPuid'', JStr ''12345678'')])
        (Some []) = [(''ubcEduCwlPuid'', JStr ''12345678'')]"
  by (simp add: ATTRIBUTE_MAPPINGS_def friendlyToOid_def mapAttributes_def pick_requested_def
      translate_entry_def getFriendlyName_def dict_get_def inherited_def object_prototype_def
      obj_get_def obj_set_def)

subsection \<open>Pass-through mode\<close>

text \<open>The first loop, from any accumulator: the keys it leaves and the value under each.\<close>

lemma translate_entry_keys:
  "obj_keys (fold translate_entry resp acc) =
     obj_keys acc \<union> (\<lambda>k. prop_key (getFriendlyName k)) ` obj_keys resp"
proof (induction resp arbitrary: acc)
  case Nil
  then show ?case by simp
next
  case (Cons e resp)
  obtain k v where e: "e = (k, v)" by (cases e)
  have step: "translate_entry e acc = obj_set acc (prop_key (getFriendlyName k)) v"
    by (simp add: e translate_entry_def)
  have "obj_keys (fold translate_entry (e # resp) acc) =
        obj_keys (obj_set acc (prop_key (getFriendlyName k)) v)
          \<union> (\<lambda>k. prop_key (getFriendlyName k)) ` obj_keys resp"
    by (simp add: Cons.IH step)
  also have "\<dots> = obj_keys acc \<union> (\<lambda>k. prop_key (getFriendlyName k)) ` obj_keys (e # resp)"
    by (simp add: e translated_key_not_proto)
  finally show ?case .
qed

lemma translate_entry_get:
  "obj_get (fold translate_entry resp acc) k' =
     (case map_of (rev (map (\<lambda>(k, v). (prop_key (getFriendlyName k), v)) resp)) k' of
        Some v \<Rightarrow> v | None \<Rightarrow> obj_get acc k')"
proof (induction resp arbitrary: acc)
  case Nil
  then show ?case by simp
next
  case (Cons e resp)
  obtain k v where e: "e = (k, v)" by (cases e)
  have step: "translate_entry e acc = obj_set acc (prop_key (getFriendlyName k)) v"
    by (simp add: e translate_entry_def)
  have "obj_get (fold translate_entry (e # resp) acc) k' =
        (case map_of (rev (map (\<lambda>(k, v). (prop_key (getFriendlyName k), v)) resp)) k' of
           Some v \<Rightarrow> v | None \<Rightarrow> obj_get (obj_set acc (prop_key (getFriendlyName k)) v) k')"
    by (simp add: Cons.IH step)
  then show ?case
    by (simp add: e obj_get_set translated_key_not_proto map_add_def split: option.splits)
qed

lemma map_of_unique:
  assumes "(k, v) \<in> set xs" and "\<And>v'. (k, v') \<in> set xs \<Longrightarrow> v' = v"
  shows "map_of xs k = Some v"
proof -
  from assms(1) obtain x where x: "map_of xs k = Some x"
    using weak_map_of_SomeI by fastforce
  then have "(k, x) \<in> set xs" by (rule map_of_SomeD)
  then have "x = v" by (rule assms(2))
  with x show ?thesis by simp
qed

text \<open>An entry whose translated key no other entry shares keeps its value.\<close>

lemma passthrough_value:
  assumes dist: "distinct (map fst raw)"
    and kv: "(k, v) \<in> set raw"
    and uniq: "\<And>k'. k' \<in> obj_keys raw \<Longrightarrow>
                 prop_key (getFriendlyName k') = prop_key (getFriendlyName k) \<Longrightarrow> k' = k"
  shows "obj_get (fold translate_entry raw []) (prop_key (getFriendlyName k)) = v"
proof -
  let ?tr = "rev (map (\<lambda>(k, v). (prop_key (getFriendlyName k), v)) raw)"
  have mem: "(prop_key (getFriendlyName k), v) \<in> set ?tr"
    using kv by force
  have only: "v' = v" if "(prop_key (getFriendlyName k), v') \<in> set ?tr" for v'
  proof -
    from that obtain k' where k': "(k', v') \<in> set raw"
        "prop_key (getFriendlyName k') = prop_key (getFriendlyName k)"
      by auto
    from k'(1) have "k' \<in> obj_keys raw" by (force simp: obj_keys_def)
    then have "k' = k" using k'(2) by (rule uniq)
    with k'(1) have "(k, v') \<in> set raw" by simp
    with dist kv show "v' = v" by (rule eq_key_imp_eq_value [symmetric])
  qed
  have "map_of ?tr (prop_key (getFriendlyName k)) = Some v"
    using mem only by (rule map_of_unique)
  then show ?thesis
    by (simp add: translate_entry_get)
qed

text \<open>
  Claim C7, as stated, fails in two ways. When two keys of the raw attributes translate
  to the same friendly name, the later entry overwrites the earlier one, so the result
  does not return every entry: here the value \<open>a@ubc.ca\<close> is lost. And a key that is the
  name of an inherited property is neither translated by the dictionary nor passed
  through unchanged: \<open>constructor\<close> comes back as the source text of the function that
  the read \<open>ATTRIBUTE_MAPPINGS['constructor']\<close> finds.
\<close>

theorem mapAttributes_passthrough_counterexample:
  "mapAttributes
     (Some [(''urn:oid:0.9.2342.19200300.100.1.3'', JStr ''a@ubc.ca''), (''mail'', JStr ''b@ubc.ca'')])
     (Some [])
   = [(''mail'', JStr ''b@ubc.ca'')]
   \<and> mapAttributes (Some [(''constructor'', JStr ''x'')]) (Some [])
   = [(''function Object() { [native code] }'', JStr ''x'')]"
  by (simp add: mapAttributes_def translate_entry_def getFriendlyName_def dict_get_def
      inherited_def object_prototype_def ATTRIBUTE_MAPPINGS_def obj_set_def)

text \<open>
  Claim C7, amended. For every raw attribute object, the keys of \<open>mapAttributes(raw, [])\<close>
  are exactly the translations of the keys of \<open>raw\<close>, so no translated key is dropped;
  a key that is not the name of a property inherited from \<open>Object.prototype\<close> is translated
  to its friendly name when the dictionary has an entry for it and is kept unchanged
  otherwise; and every entry whose translated key no other entry of \<open>raw\<close> shares is
  returned with its value under the translated key.
\<close>

theorem mapAttributes_passthrough:
  assumes "distinct (map fst raw)"
  shows "obj_keys (mapAttributes (Some raw) (Some []))
           = (\<lambda>k. prop_key (getFriendlyName k)) ` obj_keys raw
     \<and> (\<forall>k. inherited k = NUndefined \<longrightarrow>
            prop_key (getFriendlyName k)
              = (case map_of ATTRIBUTE_MAPPINGS k of None \<Rightarrow> k | Some f \<Rightarrow> f))
     \<and> (\<forall>(k, v) \<in> set raw.
          (\<forall>k' \<in> obj_keys raw.
              prop_key (getFriendlyName k') = prop_key (getFriendlyName k) \<longrightarrow> k' = k)
          \<longrightarrow> obj_get (mapAttributes (Some raw) (Some [])) (prop_key (getFriendlyName k)) = v)"
proof -
  have keys: "obj_keys (mapAttributes (Some raw) (Some []))
                = (\<lambda>k. prop_key (getFriendlyName k)) ` obj_keys raw"
    by (simp add: mapAttributes_def translate_entry_keys)
  have vals: "obj_get (mapAttributes (Some raw) (Some [])) (prop_key (getFriendlyName k)) = v"
    if "(k, v) \<in> set raw"
      and "\<forall>k' \<in> obj_keys raw.
             prop_key (getFriendlyName k') = prop_key (getFriendlyName k) \<longrightarrow> k' = k"
    for k v
  proof -
    have "obj_get (fold translate_entry raw []) (prop_key (getFriendlyName k)) = v"
      using assms that(1) that(2) by (intro passthrough_value) blast+
    then show ?thesis by (simp add: mapAttributes_def)
  qed
  from keys getFriendlyName_ordinary vals show ?thesis by blast
qed

text \<open>
  Claim C7, amended, at an input: one attribute under its wire identifier and one that
  the dictionary does not know.
\<close>

theorem mapAttributes_passthrough_witness:
  "distinct (map fst [(''urn:oid:0.9.2342.19200300.100.1.3'', JStr ''a@ubc.ca''),
                      (''employeeNumber'', JStr ''42'')])
   \<and> inherited ''employeeNumber'' = NUndefined
   \<and> obj_keys (mapAttributes
        (Some [(''urn:oid:0.9.2342.19200300.100.1.3'', JStr ''a@ubc.ca''),
               (''employeeNumber'', JStr ''42'')]) (Some []))
      = {''mail'', ''employeeNumber''}
   \<and> obj_get (mapAttributes
        (Some [(''urn:oid:0.9.2342.19200300.100.1.3'', JStr ''a@ubc.ca''),
               (''employeeNumber'', JStr ''42'')]) (Some [])) ''mail''
      = JStr ''a@ubc.ca''"
proof -
  let ?oid = "''urn:oid:0.9.2342.19200300.100.1.3''"
  let ?raw = "[(?oid, JStr ''a@ubc.ca''), (''employeeNumber'', JStr ''42'')]"
  have d: "distinct (map fst ?raw)" by simp
  have io: "inherited ?oid = NUndefined"
    by (simp add: inherited_def object_prototype_def)
  have ie: "inherited ''employeeNumber'' = NUndefined"
    by (simp add: inherited_def object_prototype_def)
  note th = mapAttributes_passthrough [OF d]
  from th [THEN conjunct2, THEN conjunct1, rule_format, OF io]
  have gm: "prop_key (getFriendlyName ?oid) = ''mail''"
    by (simp add: ATTRIBUTE_MAPPINGS_def)
  from th [THEN conjunct2, THEN conjunct1, rule_format, OF ie]
  have ge: "prop_key (getFriendlyName ''employeeNumber'') = ''employeeNumber''"
    by (simp add: ATTRIBUTE_MAPPINGS_def)
  from th have "obj_keys (mapAttributes (Some ?raw) (Some []))
                  = (\<lambda>k. prop_key (getFriendlyName k)) ` obj_keys ?raw"
    by (rule conjunct1)
  then have keys: "obj_keys (mapAttributes (Some ?raw) (Some [])) = {''mail'', ''employeeNumber''}"
    by (simp add: gm ge)
  have mem: "(?oid, JStr ''a@ubc.ca'') \<in> set ?raw" by simp
  have uniq: "\<forall>k' \<in> obj_keys ?raw.
                prop_key (getFriendlyName k') = prop_key (getFriendlyName ?oid) \<longrightarrow> k' = ?oid"
    by (simp add: gm ge)
  from th [THEN conjunct2, THEN conjunct2, THEN bspec, OF mem] uniq
  have "obj_get (mapAttributes (Some ?raw) (Some [])) (prop_key (getFriendlyName ?oid))
          = JStr ''a@ubc.ca''"
    by simp
  then have val: "obj_get (mapAttributes (Some ?raw) (Some [])) ''mail'' = JStr ''a@ubc.ca''"
    by (simp only: gm)
  from d ie keys val show ?thesis by (intro conjI)
qed

section \<open>Properties of the strategy adapter and the middlewares\<close>

subsection \<open>Environment resolution\<close>

text \<open>On a name of ASCII characters the case mapping is the one on the letters.\<close>

lemma toUpperCase_ascii: "list_all is_ascii s \<Longrightarrow> toUpperCase u s = map upper_char s"
  by (simp add: toUpperCase_def)

lemma upper_char_idem: "upper_char (upper_char c) = upper_char c"
  by (simp add: upper_char_def split: if_splits)

text \<open>
  In the constructor the resolution is total: the profile is the one of the upper-cased
  name when the table has it, and the staging profile in every other case.
\<close>

lemma ubcConfig_cases:
  "ubcConfig u pe =
     (if environment u pe = ''LOCAL'' then LOCAL
      else if environment u pe = ''PRODUCTION'' then PRODUCTION
      else STAGING)"
  by (simp add: ubcConfig_def UBC_CONFIG_def)

lemma environment_unset:
  "\<not> str_truthy (SAML_ENVIRONMENT pe) \<Longrightarrow> environment u pe = ''STAGING''"
  by (simp add: environment_def str_or_def toUpperCase_def is_ascii_def upper_char_def)

lemma ubcConfig_unset: "\<not> str_truthy (SAML_ENVIRONMENT pe) \<Longrightarrow> ubcConfig u pe = STAGING"
  by (simp add: ubcConfig_cases environment_unset)

lemma ubcConfig_unrecognized:
  "environment u pe \<notin> {''LOCAL'', ''STAGING'', ''PRODUCTION''} \<Longrightarrow> ubcConfig u pe = STAGING"
  by (simp add: ubcConfig_cases)

text \<open>Two ASCII names that differ in the case of their letters only resolve alike.\<close>

lemma environment_case_insensitive:
  assumes "list_all is_ascii a" and "list_all is_ascii b"
    and "map upper_char a = map upper_char b"
  shows "environment u (pe \<lparr> SAML_ENVIRONMENT := Some a \<rparr>)
       = environment u (pe \<lparr> SAML_ENVIRONMENT := Some b \<rparr>)"
proof -
  from assms(3) have "a = [] \<longleftrightarrow> b = []"
    by (metis map_is_Nil_conv)
  with assms show ?thesis
    by (simp add: environment_def str_or_def str_truthy_def toUpperCase_def is_ascii_def)
qed

lemma ubcConfig_case_insensitive:
  "list_all is_ascii a \<Longrightarrow> list_all is_ascii b \<Longrightarrow> map upper_char a = map upper_char b \<Longrightarrow>
   ubcConfig u (pe \<lparr> SAML_ENVIRONMENT := Some a \<rparr>) = ubcConfig u (pe \<lparr> SAML_ENVIRONMENT := Some b \<rparr>)"
  by (simp add: ubcConfig_def environment_case_insensitive [of a b])

text \<open>
  In the logout middleware the same name is looked up without the fallback: with no
  override, a name outside the table makes the middleware throw.
\<close>

lemma logout_target_recognized:
  "\<not> str_truthy (SAML_LOGOUT_URL pe) \<Longrightarrow>
   environment u pe \<in> {''LOCAL'', ''STAGING'', ''PRODUCTION''} \<Longrightarrow>
   logout_target u pe = Inr (logoutUrl (ubcConfig u pe))"
  by (auto simp: logout_target_def ubcConfig_def UBC_CONFIG_def)

lemma logout_target_unrecognized:
  "\<not> str_truthy (SAML_LOGOUT_URL pe) \<Longrightarrow>
   environment u pe \<notin> {''LOCAL'', ''STAGING'', ''PRODUCTION''} \<Longrightarrow>
   logout_target u pe = Inl (TypeErrorUndefined ''logoutUrl'')"
  by (simp add: logout_target_def UBC_CONFIG_def)

text \<open>
  Claim C5 at the name \<open>nonexistent-tier\<close>, with no logout override: the constructor's
  resolution falls back to the staging profile, as the claim says, but the logout
  middleware throws a \<open>TypeError\<close> before it reaches \<open>req.logout\<close>. (The name is ASCII, so
  this holds whatever the Unicode case mapping \<open>u\<close> is.)
\<close>

theorem logout_unknown_environment_throws:
  "ubcConfig u \<lparr> SAML_ENVIRONMENT = Some ''nonexistent-tier'', SAML_LOGOUT_URL = None \<rparr> = STAGING
   \<and> logout u (Some ''/'') \<lparr> SAML_ENVIRONMENT = Some ''nonexistent-tier'', SAML_LOGOUT_URL = None \<rparr>
        clear_session \<lparr> req_user = Some ''alice'' \<rparr>
      = Inl (TypeErrorUndefined ''logoutUrl'')"
  by (simp add: ubcConfig_def logout_def logout_target_def str_truthy_def
      str_or_def environment_def toUpperCase_def is_ascii_def upper_char_def UBC_CONFIG_def)

subsection \<open>logout\<close>

text \<open>The redirect target does not depend on the return URL.\<close>

lemma logout_ignores_returnUrl:
  "logout u r pe req_logout req = logout u r' pe req_logout req"
  by (simp add: logout_def)

text \<open>
  Claim C2 at \<open>logout('/bye')\<close> with no environment variable set: the session is cleared
  and the response is redirected to the staging logout endpoint. The middleware has no
  access to the single-logout flag, so this is also what it does when single-logout is
  disabled, where the claim asks for a redirect to \<open>/bye\<close>.
\<close>

theorem logout_redirects_to_idp_for_bye:
  "logout u (Some ''/bye'') env_unset clear_session \<lparr> req_user = Some ''alice'' \<rparr> =
     Inr \<lparr> req_after = \<lparr> req_user = None \<rparr>,
           redirect_to = ''https://authentication.stg.id.ubc.ca/idp/profile/Logout'',
           console_error = [] \<rparr>"
  by (simp add: logout_def logout_target_def env_unset_def clear_session_def str_truthy_def
      str_or_def environment_def toUpperCase_def is_ascii_def upper_char_def UBC_CONFIG_def
      STAGING_def)

subsection \<open>Construction\<close>

text \<open>
  Without a truthy \<open>options.cert\<close> the constructor never returns a strategy, and on no
  input does it start the metadata request: the \<open>cert\<close> property of \<open>samlOptions\<close> is
  truthy whenever the constructor gets as far as the test that guards \<open>_fetchCertificate\<close>.
\<close>

lemma UBCStrategy_needs_cert:
  "\<not> str_truthy (o_cert opts) \<Longrightarrow> \<exists>e ev. UBCStrategy w (Some opts) verify = (Inl e, ev)"
  by (auto simp: UBCStrategy_def split: option.splits sum.splits prod.splits)

lemma UBCStrategy_never_fetches:
  "FetchStarted u \<notin> set (snd (UBCStrategy w options verify))"
  by (auto simp: UBCStrategy_def Let_def build_samlOptions_def loadPrivateKey_def str_truthy_def
      split: option.splits sum.splits prod.splits if_splits)

text \<open>When \<open>_fetchCertificate\<close> does run and the fetch fails, it logs and changes nothing.\<close>

lemma fetchCertificate_failure:
  "fetchCertificate this (Inl e) =
     (this, [ConsoleError (''Failed to fetch IdP certificate: '' @ error_message e)])"
  by (simp add: fetchCertificate_def)

text \<open>
  Claim C1 at an options object with issuer and callback URL but no certificate: the
  constructor throws \<open>SAML certificate is required\<close> and starts no fetch, where the claim
  asks for a constructed strategy and an asynchronous fetch.
\<close>

theorem UBCStrategy_without_cert_throws:
  "UBCStrategy sample_world (Some required_options) (Some ()) = (Inl CertificateRequired, [])"
  by (simp add: UBCStrategy_def sample_world_def required_options_def loadPrivateKey_def
      str_truthy_def)

text \<open>
  The constructor neither reads nor tests \<open>issuer\<close> and \<open>callbackUrl\<close>: it copies them. With
  a certificate, no key path and a parent that accepts, it returns a strategy whatever
  the two fields hold; and the errors it can end with are the three of its own checks,
  the unreadable key file, and whatever the parent throws.
\<close>

lemma UBCStrategy_unchecked_fields:
  assumes "str_truthy (o_cert opts)" and "\<not> str_truthy (o_privateKeyPath opts)"
    and "w_engine w (build_samlOptions (ubcConfig (w_upper w) (w_env w)) opts None None) = Inr c"
  shows "\<exists>this. UBCStrategy w (Some opts) (Some vf) = (Inr this, [])
           \<and> s_issuer (t_samlOptions this) = o_issuer opts
           \<and> s_callbackUrl (t_samlOptions this) = o_callbackUrl opts"
proof -
  from assms(1) have cert: "s_cert (build_samlOptions (ubcConfig (w_upper w) (w_env w)) opts None None) \<noteq> []"
    by (auto simp: build_samlOptions_def str_truthy_def split: option.splits)
  have fields:
    "s_issuer (build_samlOptions (ubcConfig (w_upper w) (w_env w)) opts None None) = o_issuer opts"
    "s_callbackUrl (build_samlOptions (ubcConfig (w_upper w) (w_env w)) opts None None) = o_callbackUrl opts"
    by (simp_all add: build_samlOptions_def)
  from assms cert fields show ?thesis
    by (simp add: UBCStrategy_def loadPrivateKey_def Let_def)
qed

lemma UBCStrategy_errors:
  assumes "UBCStrategy w options verify = (Inl e, ev)"
  shows "e \<in> {OptionsMissing, VerifyMissing, CertificateRequired}
         \<or> (\<exists>p m. e = PrivateKeyUnreadable p m) \<or> (\<exists>m. e = EngineRejected m)"
  using assms
  by (auto simp: UBCStrategy_def loadPrivateKey_def Let_def
      split: option.splits sum.splits prod.splits if_splits)

text \<open>
  Claim C4 at an options object with a certificate but no issuer, and at one with a
  certificate but no callback URL: the constructor checks neither field, hands the
  missing value to the parent's constructor and, when that accepts, returns a strategy.
\<close>

theorem UBCStrategy_accepts_missing_issuer:
  "(case UBCStrategy sample_world
           (Some (required_options \<lparr> o_issuer := None, o_cert := Some ''MIIDHzCCAgegAwIBAgIU'' \<rparr>))
           (Some ()) of
      (Inr this, ev) \<Rightarrow> s_issuer (t_samlOptions this) = None \<and> ev = []
    | (Inl e, ev) \<Rightarrow> False)
   \<and> (case UBCStrategy sample_world
           (Some (required_options \<lparr> o_callbackUrl := None, o_cert := Some ''MIIDHzCCAgegAwIBAgIU'' \<rparr>))
           (Some ()) of
      (Inr this, ev) \<Rightarrow> s_callbackUrl (t_samlOptions this) = None \<and> ev = []
    | (Inl e, ev) \<Rightarrow> False)"
  by (simp add: UBCStrategy_def sample_world_def required_options_def loadPrivateKey_def
      str_truthy_def accepting_engine_def build_samlOptions_def Let_def)

subsection \<open>The wrapped verify callback\<close>

text \<open>
  Claim C6, as stated, fails for a configuration without requested names: the profile
  reaches the application callback as it came, with the wire identifier as key, and the
  mapper, which would have translated the key to \<open>mail\<close>, is not applied.
\<close>

theorem wrappedVerify_unmapped_counterexample:
  "wrappedVerify [] Pair (Some [(''urn:oid:0.9.2342.19200300.100.1.3'', JStr ''a@ubc.ca'')]) ()
     = ([(''urn:oid:0.9.2342.19200300.100.1.3'', JStr ''a@ubc.ca'')], ())
   \<and> mapAttributes (Some [(''urn:oid:0.9.2342.19200300.100.1.3'', JStr ''a@ubc.ca'')]) (Some [])
     = [(''mail'', JStr ''a@ubc.ca'')]"
  by (simp add: wrappedVerify_def mappedProfile_def spread_def mapAttributes_def
      translate_entry_def getFriendlyName_def dict_get_def ATTRIBUTE_MAPPINGS_def obj_set_def)

text \<open>
  Claim C6, amended. The wrapped callback calls the application callback once, with the
  completion function it was given, so the application's result is relayed as it is.
  When the configuration requests at least one friendly name, the profile it passes is a
  copy of the assertion's profile whose \<open>attributes\<close> property is the mapper's result for
  the profile and the requested names, every other property being unchanged; when the
  configuration requests none, the copy is passed unmapped.
\<close>

theorem wrappedVerify_maps_then_relays:
  "wrappedVerify cfg verify profile done = verify (mappedProfile cfg profile) done
   \<and> (cfg \<noteq> [] \<longrightarrow>
        obj_get (mappedProfile cfg profile) ''attributes''
          = JObj (mapAttributes profile (Some cfg))
        \<and> (\<forall>k. k \<noteq> ''attributes''
              \<longrightarrow> obj_get (mappedProfile cfg profile) k = obj_get (spread profile) k))
   \<and> (cfg = [] \<longrightarrow> mappedProfile cfg profile = spread profile)"
  by (simp add: wrappedVerify_def mappedProfile_def obj_get_set)

text \<open>
  Claim C6, amended, at an input: the names \<open>mail\<close> and \<open>eduPersonAffiliation\<close> requested
  from an assertion with a mail address and two affiliations, and an application callback
  that returns what it receives.
\<close>

theorem wrappedVerify_maps_then_relays_witness:
  "[''mail'', ''eduPersonAffiliation''] \<noteq> []
   \<and> wrappedVerify [''mail'', ''eduPersonAffiliation''] Pair
       (Some [(''urn:oid:0.9.2342.19200300.100.1.3'', JStr ''a@ubc.ca''),
              (''urn:oid:1.3.6.1.4.1.5923.1.1.1.1'', JArr [JStr ''student'', JStr ''member''])])
       ()
     = ([(''urn:oid:0.9.2342.19200300.100.1.3'', JStr ''a@ubc.ca''),
         (''urn:oid:1.3.6.1.4.1.5923.1.1.1.1'', JArr [JStr ''student'', JStr ''member'']),
         (''attributes'',
           JObj [(''mail'', JStr ''a@ubc.ca''),
                 (''eduPersonAffiliation'', JArr [JStr ''student'', JStr ''member''])])],
        ())"
proof -
  let ?cfg = "[''mail'', ''eduPersonAffiliation'']"
  let ?profile = "Some [(''urn:oid:0.9.2342.19200300.100.1.3'', JStr ''a@ubc.ca''),
              (''urn:oid:1.3.6.1.4.1.5923.1.1.1.1'', JArr [JStr ''student'', JStr ''member''])]"
  have m: "mapAttributes ?profile (Some ?cfg)
           = [(''mail'', JStr ''a@ubc.ca''),
              (''eduPersonAffiliation'', JArr [JStr ''student'', JStr ''member''])]"
    by (simp add: mapAttributes_def pick_requested_def friendlyToOid_entries dict_get_def
        obj_get_def obj_set_def)
  have p: "mappedProfile ?cfg ?profile
           = [(''urn:oid:0.9.2342.19200300.100.1.3'', JStr ''a@ubc.ca''),
              (''urn:oid:1.3.6.1.4.1.5923.1.1.1.1'', JArr [JStr ''student'', JStr ''member'']),
              (''attributes'', JObj (mapAttributes ?profile (Some ?cfg)))]"
    by (simp add: mappedProfile_def spread_def obj_set_def)
  from wrappedVerify_maps_then_relays [of ?cfg Pair ?profile "()"]
  have "wrappedVerify ?cfg Pair ?profile () = (mappedProfile ?cfg ?profile, ())"
    by (rule conjunct1)
  then show ?thesis by (simp only: p m) simp
qed

subsection \<open>Certificate extraction\<close>

lemma strip_prefix_Some: "strip_prefix p s = Some r \<longleftrightarrow> s = p @ r"
  by (induction p s rule: strip_prefix.induct) auto

lemma strip_prefix_append [simp]: "strip_prefix p (p @ r) = Some r"
  by (simp add: strip_prefix_Some)

lemma close_tag_head: "close_tag = CHR ''<'' # ''/ds:X509Certificate>''"
  by (simp add: close_tag_def)

lemma lt_not_base64: "\<not> is_base64_char CHR ''<''"
  by (simp add: is_base64_char_def)

text \<open>
  A match at the head of the input is a word of the regular expression's language
  followed by anything, and every such input matches at its head with the group the
  word has.
\<close>

lemma match_here_sound:
  assumes "match_here s = Some g"
  shows "\<exists>a post. s = open_tag @ a @ ''>'' @ g @ close_tag @ post
           \<and> CHR ''>'' \<notin> set a \<and> g \<noteq> [] \<and> (\<forall>c \<in> set g. is_base64_char c)"
proof -
  from assms obtain rest where rest: "strip_prefix open_tag s = Some rest"
    by (auto simp: match_here_def split: option.splits)
  from assms rest obtain gt body where gb: "dropWhile (\<lambda>c. c \<noteq> CHR ''>'') rest = gt # body"
    by (auto simp: match_here_def split: list.splits)
  from assms rest gb have g: "g = takeWhile is_base64_char body" "g \<noteq> []"
    and tl: "strip_prefix close_tag (dropWhile is_base64_char body) \<noteq> None"
    by (auto simp: match_here_def Let_def split: if_splits)
  from tl obtain post where post: "dropWhile is_base64_char body = close_tag @ post"
    by (auto simp: strip_prefix_Some)
  let ?a = "takeWhile (\<lambda>c. c \<noteq> CHR ''>'') rest"
  have "gt = CHR ''>''"
    using hd_dropWhile [of "\<lambda>c. c \<noteq> CHR ''>''" rest] gb by auto
  with gb have "rest = ?a @ CHR ''>'' # body"
    using takeWhile_dropWhile_id [of "\<lambda>c. c \<noteq> CHR ''>''" rest] by simp
  moreover have "body = g @ close_tag @ post"
    using takeWhile_dropWhile_id [of is_base64_char body] g(1) post by simp
  moreover have "s = open_tag @ rest"
    using rest by (simp add: strip_prefix_Some)
  ultimately have "s = open_tag @ ?a @ ''>'' @ g @ close_tag @ post" by simp
  moreover have "CHR ''>'' \<notin> set ?a"
    by (auto dest: set_takeWhileD)
  moreover have "\<forall>c \<in> set g. is_base64_char c"
    using g(1) by (auto dest: set_takeWhileD)
  ultimately show ?thesis using g(2) by blast
qed

lemma match_here_complete:
  assumes "CHR ''>'' \<notin> set a" and "g \<noteq> []" and "\<forall>c \<in> set g. is_base64_char c"
  shows "match_here (open_tag @ a @ ''>'' @ g @ close_tag @ post) = Some g"
proof -
  have d: "dropWhile (\<lambda>c. c \<noteq> CHR ''>'') (a @ CHR ''>'' # g @ close_tag @ post)
           = CHR ''>'' # g @ close_tag @ post"
    using assms(1) by (auto simp: dropWhile_append3)
  have t: "takeWhile is_base64_char (g @ close_tag @ post) = g"
    using assms(3) by (simp add: close_tag_head takeWhile_tail lt_not_base64)
  have r: "dropWhile is_base64_char (g @ close_tag @ post) = close_tag @ post"
    using assms(3) by (simp add: close_tag_head lt_not_base64)
  show ?thesis
    using assms(2) by (simp add: match_here_def d t r del: append_assoc)
qed

text \<open>The search over the start positions finds a match exactly when one exists.\<close>

lemma cert_match_sound:
  "cert_match s = Some g \<Longrightarrow>
   \<exists>pre a post. s = pre @ open_tag @ a @ ''>'' @ g @ close_tag @ post
     \<and> CHR ''>'' \<notin> set a \<and> g \<noteq> [] \<and> (\<forall>c \<in> set g. is_base64_char c)"
proof (induction s)
  case Nil
  then show ?case by (simp add: match_here_def open_tag_def)
next
  case (Cons c cs)
  show ?case
  proof (cases "match_here (c # cs)")
    case (Some g')
    with Cons.prems have "g' = g" by simp
    with Some match_here_sound [of "c # cs" g] show ?thesis
      by (metis append_Nil)
  next
    case None
    with Cons.prems have "cert_match cs = Some g" by simp
    from Cons.IH [OF this] obtain pre a post where
      "cs = pre @ open_tag @ a @ ''>'' @ g @ close_tag @ post"
      "CHR ''>'' \<notin> set a" "g \<noteq> []" "\<forall>c \<in> set g. is_base64_char c"
      by blast
    then have "c # cs = (c # pre) @ open_tag @ a @ ''>'' @ g @ close_tag @ post" by simp
    with \<open>CHR ''>'' \<notin> set a\<close> \<open>g \<noteq> []\<close> \<open>\<forall>c \<in> set g. is_base64_char c\<close>
    show ?thesis by blast
  qed
qed

lemma cert_match_complete:
  assumes "CHR ''>'' \<notin> set a" and "g \<noteq> []" and "\<forall>c \<in> set g. is_base64_char c"
  shows "cert_match (pre @ open_tag @ a @ ''>'' @ g @ close_tag @ post) \<noteq> None"
proof (induction pre)
  case Nil
  have "open_tag @ a @ ''>'' @ g @ close_tag @ post \<noteq> []"
    by (simp add: open_tag_def)
  then obtain c cs where cs: "open_tag @ a @ ''>'' @ g @ close_tag @ post = c # cs"
    by (cases "open_tag @ a @ ''>'' @ g @ close_tag @ post") auto
  have "match_here (c # cs) = Some g"
    using match_here_complete [OF assms, of post] cs by simp
  then have "cert_match (c # cs) = Some g" by simp
  with cs show ?case by simp
next
  case (Cons c pre)
  then show ?case by (simp split: option.splits)
qed

text \<open>
  So the extraction succeeds exactly on the documents that contain an element
  \<open>ds:X509Certificate\<close> whose content is a non-empty run of characters of the class and
  nothing else, and what it returns has no white space in it.
\<close>

lemma extractCert_succeeds_iff:
  "(\<exists>g. extractCertFromMetadata s = Inr g) \<longleftrightarrow>
   (\<exists>pre a g post. s = pre @ open_tag @ a @ ''>'' @ g @ close_tag @ post
      \<and> CHR ''>'' \<notin> set a \<and> g \<noteq> [] \<and> (\<forall>c \<in> set g. is_base64_char c))"
proof
  assume "\<exists>g. extractCertFromMetadata s = Inr g"
  then obtain g where "cert_match s = Some g"
    by (auto simp: extractCertFromMetadata_def split: option.splits if_splits)
  from cert_match_sound [OF this]
  show "\<exists>pre a g post. s = pre @ open_tag @ a @ ''>'' @ g @ close_tag @ post
      \<and> CHR ''>'' \<notin> set a \<and> g \<noteq> [] \<and> (\<forall>c \<in> set g. is_base64_char c)" by blast
next
  assume "\<exists>pre a g post. s = pre @ open_tag @ a @ ''>'' @ g @ close_tag @ post
      \<and> CHR ''>'' \<notin> set a \<and> g \<noteq> [] \<and> (\<forall>c \<in> set g. is_base64_char c)"
  then obtain pre a g post where s: "s = pre @ open_tag @ a @ ''>'' @ g @ close_tag @ post"
    and h: "CHR ''>'' \<notin> set a" "g \<noteq> []" "\<forall>c \<in> set g. is_base64_char c"
    by blast
  from cert_match_complete [OF h, of pre post] s obtain g' where g': "cert_match s = Some g'"
    by auto
  from cert_match_sound [OF g'] have "g' \<noteq> []" by blast
  with g' show "\<exists>g. extractCertFromMetadata s = Inr g"
    by (simp add: extractCertFromMetadata_def)
qed

lemma extractCert_result_base64:
  assumes "extractCertFromMetadata s = Inr g"
  shows "g \<noteq> [] \<and> (\<forall>c \<in> set g. is_base64_char c)"
proof -
  from assms have "cert_match s = Some g"
    by (auto simp: extractCertFromMetadata_def split: option.splits if_splits)
  from cert_match_sound [OF this] show ?thesis by blast
qed

lemma extractCert_plain:
  "extractCertFromMetadata
     ''<ds:X509Data><ds:X509Certificate>MIIDHzCCAgegAwIBAgIU</ds:X509Certificate></ds:X509Data>''
   = Inr ''MIIDHzCCAgegAwIBAgIU''"
  by (simp add: extractCertFromMetadata_def match_here_def open_tag_def close_tag_def
      is_base64_char_def)

text \<open>
  Claim C9 at a document with exactly one certificate whose content stands on a line of
  its own, as identity providers publish it: the line breaks are not in the character
  class, so the extraction throws \<open>No X509Certificate found\<close> although the element is
  there, where the claim asks for the content without the surrounding white space.
\<close>

theorem extractCert_wrapped_lines_fails:
  "extractCertFromMetadata
     (''<ds:X509Data><ds:X509Certificate>'' @ [CHR 0x0A] @ ''MIIDHzCCAgegAwIBAgIU'' @ [CHR 0x0A]
        @ ''</ds:X509Certificate></ds:X509Data>'')
   = Inl NoCertificateFound"
  by (simp add: extractCertFromMetadata_def match_here_def open_tag_def close_tag_def
      is_base64_char_def)

end
